theory Spec2Isabelle
  imports Main
begin

section \<open>Data shapes declared by the module\<close>

text \<open>
  The interfaces of \<^verbatim>\<open>WortalIAP.ts\<close> and \<^verbatim>\<open>interfaces/Player.ts\<close>. An optional
  property (\<^verbatim>\<open>description?: string\<close>) is an \<open>option\<close>. Field names carry the
  interface's initial as a suffix where two interfaces share a property name or the
  name is a HOL constant.
\<close>

type_synonym Signature = string

record Product =
  title :: string
  productID :: string
  description :: "string option"
  imageURI :: "string option"
  price :: string
  priceCurrencyCode :: string

record PurchaseConfig =
  productID_c :: string
  developerPayload_c :: "string option"

record Purchase =
  developerPayload :: "string option"
  paymentID :: string
  productID_p :: string
  purchaseTime :: string
  purchaseToken :: string
  signedRequest :: Signature

text \<open>
  \<^verbatim>\<open>ConnectedPlayerFilter\<close> is imported from \<^verbatim>\<open>../types/Player\<close>, which is not part
  of the sources at hand: it is a type parameter here.
\<close>

record 'f ConnectedPlayerPayload =
  cursor :: "int option"
  filter_p :: "'f option"
  hoursSinceInvitation :: "int option"
  size_p :: "int option"

record WortalPlayerData =
  id_p :: string
  name :: string
  photo :: string

record SignedASID =
  asid :: string
  signature :: string

section \<open>JavaScript values, objects and the external platform\<close>

text \<open>
  The functions of \<^verbatim>\<open>WortalIAP.ts\<close> run against \<^verbatim>\<open>(window as any)\<close>: every type is
  erased, so the model is dynamic. A value is a primitive or a reference into a heap
  of objects; object identity is the address.
\<close>

datatype jsval =
    JUndefined
  | JNull
  | JBool bool
  | JNum int
  | JStr string
  | JRef nat

datatype promise_state = Pending | Fulfilled jsval | Rejected jsval

text \<open>
  The internal slots of an object: an ordinary object, an array with its elements, a
  function of the host (named by a number) or a promise with its state.
\<close>

datatype kind =
    Ordinary
  | Array "jsval list"
  | Callable nat
  | Promise promise_state

datatype obj = Obj (props: "(string \<times> jsval) list") (slot: kind)

type_synonym heap = "(nat \<times> obj) list"

text \<open>
  \<open>window\<close> is the binding of the global identifier \<^verbatim>\<open>window\<close> (\<open>None\<close> where no
  such identifier is declared), \<open>heap\<close> the objects.
\<close>

record world =
  window :: "jsval option"
  heap :: heap

datatype exn = TypeError | ReferenceError | Thrown jsval

datatype completion = Return jsval | Throw exn

text \<open>
  The external platform is a parameter: what the host function \<open>fid\<close> does when it is
  called with a receiver and arguments in a world. It returns or throws, and it leaves
  a new world.
\<close>

type_synonym host = "nat \<Rightarrow> jsval \<Rightarrow> jsval list \<Rightarrow> world \<Rightarrow> completion \<times> world"

text \<open>One call of a host function, as the facade's run records it.\<close>

datatype extcall = ExtCall (callee: nat) (receiver: jsval) (arguments: "jsval list")

type_synonym outcome = "completion \<times> world \<times> extcall list"

text \<open>
  Reading a property. On \<^verbatim>\<open>undefined\<close> and \<^verbatim>\<open>null\<close> it throws a TypeError. The
  property table of an object is taken as the whole view of its data properties (own
  and inherited), a missing name reads as \<^verbatim>\<open>undefined\<close>; the names read here are not
  properties of the wrappers of booleans, numbers and strings.
\<close>

fun getProp :: "world \<Rightarrow> jsval \<Rightarrow> string \<Rightarrow> exn + jsval" where
  "getProp w JUndefined k = Inl TypeError"
| "getProp w JNull k = Inl TypeError"
| "getProp w (JRef a) k =
     (case map_of (heap w) a of
        None \<Rightarrow> Inr JUndefined
      | Some ob \<Rightarrow> (case map_of (props ob) k of None \<Rightarrow> Inr JUndefined | Some v \<Rightarrow> Inr v))"
| "getProp w v k = Inr JUndefined"

fun callableOf :: "world \<Rightarrow> jsval \<Rightarrow> nat option" where
  "callableOf w (JRef a) =
     (case map_of (heap w) a of
        Some (Obj ps (Callable fid)) \<Rightarrow> Some fid
      | _ \<Rightarrow> None)"
| "callableOf w v = None"

text \<open>The expressions the source evaluates before a call: \<^verbatim>\<open>window\<close> and \<^verbatim>\<open>e.name\<close>.\<close>

datatype expr = Window | Member expr string

fun evalExpr :: "world \<Rightarrow> expr \<Rightarrow> exn + jsval" where
  "evalExpr w Window = (case window w of None \<Rightarrow> Inl ReferenceError | Some v \<Rightarrow> Inr v)"
| "evalExpr w (Member e k) =
     (case evalExpr w e of Inl x \<Rightarrow> Inl x | Inr v \<Rightarrow> getProp w v k)"

text \<open>
  The method call \<^verbatim>\<open>e.name(args)\<close>: evaluate \<^verbatim>\<open>e\<close>, read \<^verbatim>\<open>name\<close> from it, throw a
  TypeError when what was read is not callable, otherwise call it with \<^verbatim>\<open>e\<close>'s value
  as receiver. The result of the call is the result of the expression.
\<close>

definition callMethod :: "host \<Rightarrow> world \<Rightarrow> expr \<Rightarrow> string \<Rightarrow> jsval list \<Rightarrow> outcome" where
  "callMethod h w e k args =
     (case evalExpr w e of
        Inl x \<Rightarrow> (Throw x, w, [])
      | Inr this \<Rightarrow>
          (case getProp w this k of
             Inl x \<Rightarrow> (Throw x, w, [])
           | Inr f \<Rightarrow>
               (case callableOf w f of
                  None \<Rightarrow> (Throw TypeError, w, [])
                | Some fid \<Rightarrow>
                    (case h fid this args w of (c, w') \<Rightarrow> (c, w', [ExtCall fid this args])))))"

section \<open>The facade of WortalIAP.ts\<close>

definition isEnabled :: "host \<Rightarrow> world \<Rightarrow> outcome" where
  "isEnabled h w = callMethod h w (Member (Member Window ''Wortal'') ''iap'') ''isEnabled'' []"

definition getCatalogAsync :: "host \<Rightarrow> world \<Rightarrow> outcome" where
  "getCatalogAsync h w =
     callMethod h w (Member (Member Window ''Wortal'') ''iap'') ''getCatalogAsync'' []"

definition getPurchasesAsync :: "host \<Rightarrow> world \<Rightarrow> outcome" where
  "getPurchasesAsync h w =
     callMethod h w (Member (Member Window ''Wortal'') ''iap'') ''getPurchasesAsync'' []"

definition makePurchaseAsync :: "host \<Rightarrow> world \<Rightarrow> jsval \<Rightarrow> outcome" where
  "makePurchaseAsync h w purchase =
     callMethod h w (Member (Member Window ''Wortal'') ''iap'') ''makePurchaseAsync'' [purchase]"

definition consumePurchaseAsync :: "host \<Rightarrow> world \<Rightarrow> string \<Rightarrow> outcome" where
  "consumePurchaseAsync h w token =
     callMethod h w (Member (Member Window ''Wortal'') ''iap'') ''consumePurchaseAsync'' [JStr token]"

section \<open>What the platform exposes\<close>

text \<open>
  \<open>iapMethod w m\<close> is the receiver and the host function behind
  \<^verbatim>\<open>window.Wortal.iap.m\<close> in the world \<open>w\<close>, when each of the three objects is there
  and \<^verbatim>\<open>m\<close> is callable.
\<close>

definition iapMethod :: "world \<Rightarrow> string \<Rightarrow> (jsval \<times> nat) option" where
  "iapMethod w m =
     (case window w of
        Some (JRef a) \<Rightarrow>
          (case map_of (heap w) a of
             Some wo \<Rightarrow>
               (case map_of (props wo) ''Wortal'' of
                  Some (JRef b) \<Rightarrow>
                    (case map_of (heap w) b of
                       Some so \<Rightarrow>
                         (case map_of (props so) ''iap'' of
                            Some (JRef c) \<Rightarrow>
                              (case map_of (heap w) c of
                                 Some io \<Rightarrow>
                                   (case map_of (props io) m of
                                      Some f \<Rightarrow>
                                        (case callableOf w f of
                                           Some fid \<Rightarrow> Some (JRef c, fid)
                                         | None \<Rightarrow> None)
                                    | None \<Rightarrow> None)
                               | None \<Rightarrow> None)
                          | _ \<Rightarrow> None)
                     | None \<Rightarrow> None)
                | _ \<Rightarrow> None)
           | None \<Rightarrow> None)
      | _ \<Rightarrow> None)"

text \<open>
  The state of the promise a completion returned, read in a world \<open>w\<close> (the world of
  any later moment): \<open>None\<close> when the completion is a throw or its value is not a
  promise of \<open>w\<close>.
\<close>

fun promiseOf :: "world \<Rightarrow> completion \<Rightarrow> promise_state option" where
  "promiseOf w (Return (JRef a)) =
     (case map_of (heap w) a of
        Some (Obj ps (Promise st)) \<Rightarrow> Some st
      | _ \<Rightarrow> None)"
| "promiseOf w c = None"

text \<open>
  The rejection a completion carries, read in a world \<open>w\<close>: the reason of the
  rejected promise it returned, or the value it threw.
\<close>

fun rejectionOf :: "world \<Rightarrow> completion \<Rightarrow> jsval option" where
  "rejectionOf w (Throw (Thrown v)) = Some v"
| "rejectionOf w (Throw x) = None"
| "rejectionOf w c = (case promiseOf w c of Some (Rejected e) \<Rightarrow> Some e | _ \<Rightarrow> None)"

section \<open>The five exported functions as one interface\<close>

text \<open>
  A call of the module from outside: which exported function, with which argument.
  \<open>externalName\<close> and \<open>externalArgs\<close> are the platform method of the same name and
  the arguments the caller gave.
\<close>

datatype facadeCall =
    IsEnabled
  | GetCatalogAsync
  | GetPurchasesAsync
  | MakePurchaseAsync jsval
  | ConsumePurchaseAsync string

fun invoke :: "host \<Rightarrow> world \<Rightarrow> facadeCall \<Rightarrow> outcome" where
  "invoke h w IsEnabled = isEnabled h w"
| "invoke h w GetCatalogAsync = getCatalogAsync h w"
| "invoke h w GetPurchasesAsync = getPurchasesAsync h w"
| "invoke h w (MakePurchaseAsync purchase) = makePurchaseAsync h w purchase"
| "invoke h w (ConsumePurchaseAsync token) = consumePurchaseAsync h w token"

fun externalName :: "facadeCall \<Rightarrow> string" where
  "externalName IsEnabled = ''isEnabled''"
| "externalName GetCatalogAsync = ''getCatalogAsync''"
| "externalName GetPurchasesAsync = ''getPurchasesAsync''"
| "externalName (MakePurchaseAsync purchase) = ''makePurchaseAsync''"
| "externalName (ConsumePurchaseAsync token) = ''consumePurchaseAsync''"

fun externalArgs :: "facadeCall \<Rightarrow> jsval list" where
  "externalArgs (MakePurchaseAsync purchase) = [purchase]"
| "externalArgs (ConsumePurchaseAsync token) = [JStr token]"
| "externalArgs c = []"

section \<open>Signature strings\<close>

text \<open>
  The two properties that hold a signature: \<^verbatim>\<open>SignedASID.signature\<close> and
  \<^verbatim>\<open>Purchase.signedRequest\<close>. \<open>eraseSignatures\<close> blanks every string stored under
  one of them, so two worlds with the same erasure differ in their signature strings
  only.
\<close>

definition isSignatureKey :: "string \<Rightarrow> bool" where
  "isSignatureKey k \<longleftrightarrow> k = ''signature'' \<or> k = ''signedRequest''"

fun eraseVal :: "string \<Rightarrow> jsval \<Rightarrow> jsval" where
  "eraseVal k (JStr s) = (if isSignatureKey k then JStr [] else JStr s)"
| "eraseVal k v = v"

fun eraseObj :: "obj \<Rightarrow> obj" where
  "eraseObj (Obj ps s) = Obj (map (\<lambda>(k, v). (k, eraseVal k v)) ps) s"

definition eraseSignatures :: "world \<Rightarrow> world" where
  "eraseSignatures w = w\<lparr>heap := map (\<lambda>(a, ob). (a, eraseObj ob)) (heap w)\<rparr>"

fun eraseOutcome :: "completion \<times> world \<Rightarrow> completion \<times> world" where
  "eraseOutcome (c, w) = (c, eraseSignatures w)"

fun eraseResult :: "outcome \<Rightarrow> outcome" where
  "eraseResult (c, w, calls) = (c, eraseSignatures w, calls)"

section \<open>A sample session\<close>

text \<open>The objects a purchase configuration and a purchase are at run time.\<close>

definition optionalProp :: "string \<Rightarrow> string option \<Rightarrow> (string \<times> jsval) list" where
  "optionalProp k v = (case v of None \<Rightarrow> [] | Some s \<Rightarrow> [(k, JStr s)])"

definition configObj :: "PurchaseConfig \<Rightarrow> obj" where
  "configObj c =
     Obj ([(''productID'', JStr (productID_c c))]
          @ optionalProp ''developerPayload'' (developerPayload_c c)) Ordinary"

definition purchaseObj :: "Purchase \<Rightarrow> obj" where
  "purchaseObj p =
     Obj (optionalProp ''developerPayload'' (developerPayload p)
          @ [(''paymentID'', JStr (paymentID p)),
             (''productID'', JStr (productID_p p)),
             (''purchaseTime'', JStr (purchaseTime p)),
             (''purchaseToken'', JStr (purchaseToken p)),
             (''signedRequest'', JStr (signedRequest p))]) Ordinary"

text \<open>
  A world in which the platform is loaded: \<^verbatim>\<open>window\<close> at address 0, \<^verbatim>\<open>Wortal\<close> at 1,
  \<^verbatim>\<open>iap\<close> at 2 with its five methods at 3 to 7, and a purchase configuration of the
  caller at 30.
\<close>

definition platformWorld :: world where
  "platformWorld =
     \<lparr>window = Some (JRef 0),
      heap =
        [(0, Obj [(''Wortal'', JRef 1)] Ordinary),
         (1, Obj [(''iap'', JRef 2)] Ordinary),
         (2, Obj [(''isEnabled'', JRef 3),
                  (''getCatalogAsync'', JRef 4),
                  (''getPurchasesAsync'', JRef 5),
                  (''makePurchaseAsync'', JRef 6),
                  (''consumePurchaseAsync'', JRef 7)] Ordinary),
         (3, Obj [] (Callable 0)),
         (4, Obj [] (Callable 1)),
         (5, Obj [] (Callable 2)),
         (6, Obj [] (Callable 3)),
         (7, Obj [] (Callable 4)),
         (30, configObj \<lparr>productID_c = ''p1'', developerPayload_c = None\<rparr>)]\<rparr>"

text \<open>Worlds in which the script of the platform did not load, or loaded in part.\<close>

definition bareWorld :: world where
  "bareWorld = \<lparr>window = Some (JRef 0), heap = [(0, Obj [] Ordinary)]\<rparr>"

definition noIapWorld :: world where
  "noIapWorld =
     \<lparr>window = Some (JRef 0),
      heap = [(0, Obj [(''Wortal'', JRef 1)] Ordinary), (1, Obj [] Ordinary)]\<rparr>"

definition noMethodWorld :: world where
  "noMethodWorld =
     \<lparr>window = Some (JRef 0),
      heap =
        [(0, Obj [(''Wortal'', JRef 1)] Ordinary),
         (1, Obj [(''iap'', JRef 2)] Ordinary),
         (2, Obj [] Ordinary)]\<rparr>"

definition allocate :: "world \<Rightarrow> (nat \<times> obj) list \<Rightarrow> world" where
  "allocate w obs = w\<lparr>heap := heap w @ obs\<rparr>"

text \<open>
  A platform for these worlds. It reports purchasing as enabled, an empty catalog, one
  unconsumed purchase signed \<open>sig\<close>, a purchase the player cancelled, and a
  consumption that is still pending when the call returns.
\<close>

definition samplePlatform :: "Signature \<Rightarrow> host" where
  "samplePlatform sig fid this args w =
     (if fid = 0 then (Return (JBool True), w)
      else if fid = 1 then
        (Return (JRef 20),
         allocate w [(20, Obj [] (Promise (Fulfilled (JRef 21)))), (21, Obj [] (Array []))])
      else if fid = 2 then
        (Return (JRef 22),
         allocate w
           [(22, Obj [] (Promise (Fulfilled (JRef 23)))),
            (23, Obj [] (Array [JRef 24])),
            (24, purchaseObj
                   \<lparr>developerPayload = None, paymentID = ''order1'', productID_p = ''p1'',
                    purchaseTime = ''1700000000'', purchaseToken = ''tok123'',
                    signedRequest = sig\<rparr>)])
      else if fid = 3 then
        (Return (JRef 25),
         allocate w
           [(25, Obj [] (Promise (Rejected (JRef 26)))),
            (26, Obj [(''code'', JStr ''USER_INPUT'')] Ordinary)])
      else if fid = 4 then
        (Return (JRef 27), allocate w [(27, Obj [] (Promise Pending))])
      else (Throw (Thrown JUndefined), w))"

text \<open>
  What a caller reads from a rejection to classify it: the property \<open>k\<close> of the
  reason (the platform's error objects are declared outside the two files).
\<close>

fun classification :: "string \<Rightarrow> world \<Rightarrow> completion \<Rightarrow> jsval option" where
  "classification k w c =
     (case rejectionOf w c of
        None \<Rightarrow> None
      | Some e \<Rightarrow> (case getProp w e k of Inl x \<Rightarrow> None | Inr v \<Rightarrow> Some v))"

text \<open>The worlds the sample platform leaves after a cancelled purchase and after
  reporting the empty catalog.\<close>

definition cancelledWorld :: world where
  "cancelledWorld =
     allocate platformWorld
       [(25, Obj [] (Promise (Rejected (JRef 26)))),
        (26, Obj [(''code'', JStr ''USER_INPUT'')] Ordinary)]"

definition emptyCatalogWorld :: world where
  "emptyCatalogWorld =
     allocate platformWorld
       [(20, Obj [] (Promise (Fulfilled (JRef 21)))), (21, Obj [] (Array []))]"

definition purchasesWorld :: "Signature \<Rightarrow> world" where
  "purchasesWorld sig =
     allocate platformWorld
       [(22, Obj [] (Promise (Fulfilled (JRef 23)))),
        (23, Obj [] (Array [JRef 24])),
        (24, purchaseObj
               \<lparr>developerPayload = None, paymentID = ''order1'', productID_p = ''p1'',
                purchaseTime = ''1700000000'', purchaseToken = ''tok123'',
                signedRequest = sig\<rparr>)]"

section \<open>A caller's sequence of invocations\<close>

text \<open>
  \<open>session\<close> runs the invocations of a caller one after the other, each in the world
  the one before left, and collects the completions and the calls made to the host.
  The module declares no variable, so nothing but the world goes from one invocation
  to the next.
\<close>

fun session :: "host \<Rightarrow> world \<Rightarrow> facadeCall list \<Rightarrow> completion list \<times> world \<times> extcall list" where
  "session h w [] = ([], w, [])"
| "session h w (c # cs) =
     (case invoke h w c of
        (r, w1, calls1) \<Rightarrow>
          (case session h w1 cs of
             (rs, w2, calls2) \<Rightarrow> (r # rs, w2, calls1 @ calls2)))"

text \<open>\<open>replay\<close> is the world the host functions alone leave when called in this order.\<close>

fun replay :: "host \<Rightarrow> world \<Rightarrow> extcall list \<Rightarrow> world" where
  "replay h w [] = w"
| "replay h w (ExtCall fid this args # calls) = replay h (snd (h fid this args w)) calls"

text \<open>
  \<open>platformCalls\<close> is what calling the platform's own methods in the caller's order
  comes to: for each invocation the method of the same name, found in the world of
  that moment, with the caller's arguments. It is \<open>None\<close> when at some moment the
  method is not there.
\<close>

fun platformCalls :: "host \<Rightarrow> world \<Rightarrow> facadeCall list \<Rightarrow> extcall list option" where
  "platformCalls h w [] = Some []"
| "platformCalls h w (c # cs) =
     (case iapMethod w (externalName c) of
        None \<Rightarrow> None
      | Some (iap, fid) \<Rightarrow>
          (case platformCalls h (snd (h fid iap (externalArgs c) w)) cs of
             None \<Rightarrow> None
           | Some calls \<Rightarrow> Some (ExtCall fid iap (externalArgs c) # calls)))"

section \<open>Calls that reach the platform, calls that do not\<close>

lemma callMethod_present:
  assumes "iapMethod w m = Some (iap, fid)"
  shows "callMethod h w (Member (Member Window ''Wortal'') ''iap'') m args =
         (fst (h fid iap args w), snd (h fid iap args w), [ExtCall fid iap args])"
  using assms
  by (auto simp: iapMethod_def callMethod_def
      split: option.splits jsval.splits prod.splits)

lemma callMethod_absent:
  assumes "iapMethod w m = None" and "window w = Some win"
  shows "callMethod h w (Member (Member Window ''Wortal'') ''iap'') m args =
         (Throw TypeError, w, [])"
proof (cases win)
  case (JRef a)
  with assms show ?thesis
    by (auto simp: iapMethod_def callMethod_def
        split: option.splits jsval.splits sum.splits)
qed (use assms in \<open>simp_all add: callMethod_def\<close>)

lemma callMethod_undeclared:
  assumes "window w = None"
  shows "callMethod h w (Member (Member Window ''Wortal'') ''iap'') m args =
         (Throw ReferenceError, w, [])"
  using assms by (simp add: callMethod_def)

lemmas facade_defs =
  isEnabled_def getCatalogAsync_def getPurchasesAsync_def makePurchaseAsync_def
  consumePurchaseAsync_def

lemma invoke_callMethod:
  "invoke h w c =
   callMethod h w (Member (Member Window ''Wortal'') ''iap'') (externalName c) (externalArgs c)"
  by (cases c) (simp_all add: facade_defs)

lemma invoke_present:
  assumes "iapMethod w (externalName c) = Some (iap, fid)"
  shows "invoke h w c =
         (fst (h fid iap (externalArgs c) w), snd (h fid iap (externalArgs c) w),
          [ExtCall fid iap (externalArgs c)])"
  using assms by (simp add: invoke_callMethod callMethod_present)

lemma invoke_undeclared:
  assumes "window w = None"
  shows "invoke h w c = (Throw ReferenceError, w, [])"
  using assms by (simp add: invoke_callMethod callMethod_undeclared)

lemma invoke_absent:
  assumes "iapMethod w (externalName c) = None" and "window w = Some win"
  shows "invoke h w c = (Throw TypeError, w, [])"
  using assms by (simp add: invoke_callMethod callMethod_absent)

lemma invoke_writes_nothing:
  "fst (snd (invoke h w c)) = w \<or>
   (\<exists>iap fid. fst (snd (invoke h w c)) = snd (h fid iap (externalArgs c) w))"
proof (cases "iapMethod w (externalName c)")
  case None
  show ?thesis
  proof (cases "window w")
    case None
    then show ?thesis by (simp add: invoke_undeclared)
  next
    case (Some win)
    with \<open>iapMethod w (externalName c) = None\<close> show ?thesis
      by (simp add: invoke_absent)
  qed
next
  case (Some p)
  then obtain iap fid where "iapMethod w (externalName c) = Some (iap, fid)"
    by (cases p) simp
  then have "fst (snd (invoke h w c)) = snd (h fid iap (externalArgs c) w)"
    by (simp add: invoke_present)
  then show ?thesis by blast
qed

section \<open>The lookup does not read signature strings\<close>

lemma map_of_erased_props:
  "map_of (map (\<lambda>(k, v). (k, eraseVal k v)) ps) k = map_option (eraseVal k) (map_of ps k)"
  by (induction ps) auto

lemma props_eraseObj: "props (eraseObj ob) = map (\<lambda>(k, v). (k, eraseVal k v)) (props ob)"
  by (cases ob) simp

lemma heap_eraseSignatures:
  "map_of (heap (eraseSignatures w)) a = map_option eraseObj (map_of (heap w) a)"
  by (simp add: eraseSignatures_def map_of_map)

lemma window_eraseSignatures: "window (eraseSignatures w) = window w"
  by (simp add: eraseSignatures_def)

lemma callableOf_erased: "callableOf (eraseSignatures w) v = callableOf w v"
proof (cases v)
  case (JRef a)
  show ?thesis
  proof (cases "map_of (heap w) a")
    case None
    with JRef show ?thesis by (simp add: heap_eraseSignatures)
  next
    case (Some ob)
    with JRef show ?thesis
      by (cases ob; cases "slot ob") (simp_all add: heap_eraseSignatures)
  qed
qed simp_all

lemma callableOf_eraseVal: "callableOf w (eraseVal k v) = callableOf w v"
  by (cases v) auto

lemma eraseVal_cases:
  "(case eraseVal k v of JRef a \<Rightarrow> f a | _ \<Rightarrow> d) = (case v of JRef a \<Rightarrow> f a | _ \<Rightarrow> d)"
  by (cases v) auto

lemma iapMethod_erased: "iapMethod (eraseSignatures w) m = iapMethod w m"
  unfolding iapMethod_def
  by (simp add: window_eraseSignatures heap_eraseSignatures props_eraseObj
      map_of_erased_props callableOf_erased callableOf_eraseVal eraseVal_cases
      option.case_eq_if option.map_sel
      split: option.splits jsval.splits)

lemma lookup_depends_on_erasure:
  assumes "eraseSignatures w1 = eraseSignatures w2"
  shows "iapMethod w1 m = iapMethod w2 m" and "window w1 = window w2"
proof -
  have "iapMethod w1 m = iapMethod (eraseSignatures w1) m"
    by (simp add: iapMethod_erased)
  also have "\<dots> = iapMethod w2 m"
    by (simp add: assms iapMethod_erased)
  finally show "iapMethod w1 m = iapMethod w2 m" .
  have "window w1 = window (eraseSignatures w1)"
    by (simp add: window_eraseSignatures)
  also have "\<dots> = window w2"
    by (simp add: assms window_eraseSignatures)
  finally show "window w1 = window w2" .
qed

section \<open>The claims\<close>

text \<open>
  C1. Where the platform exposes \<^verbatim>\<open>makePurchaseAsync\<close>, the facade calls it once, in
  the caller's world, with the very value the caller passed as the only argument, and
  what it returns, the world it leaves and the promise's state at any later moment are
  the external call's.
\<close>

theorem makePurchaseAsync_forwards:
  assumes "iapMethod w ''makePurchaseAsync'' = Some (iap, fid)"
    and "h fid iap [purchase] w = (r, w')"
  shows "makePurchaseAsync h w purchase = (r, w', [ExtCall fid iap [purchase]]) \<and>
         (\<forall>later. promiseOf later (fst (makePurchaseAsync h w purchase)) = promiseOf later r)"
  using assms by (simp add: makePurchaseAsync_def callMethod_present)

theorem makePurchaseAsync_forwards_witness:
  "iapMethod platformWorld ''makePurchaseAsync'' = Some (JRef 2, 3) \<and>
   samplePlatform ''sig'' 3 (JRef 2) [JRef 30] platformWorld =
     (Return (JRef 25),
      allocate platformWorld
        [(25, Obj [] (Promise (Rejected (JRef 26)))),
         (26, Obj [(''code'', JStr ''USER_INPUT'')] Ordinary)]) \<and>
   makePurchaseAsync (samplePlatform ''sig'') platformWorld (JRef 30) =
     (Return (JRef 25),
      allocate platformWorld
        [(25, Obj [] (Promise (Rejected (JRef 26)))),
         (26, Obj [(''code'', JStr ''USER_INPUT'')] Ordinary)],
      [ExtCall 3 (JRef 2) [JRef 30]])"
proof -
  have present: "iapMethod platformWorld ''makePurchaseAsync'' = Some (JRef 2, 3)"
    by (simp add: iapMethod_def platformWorld_def)
  have ext: "samplePlatform ''sig'' 3 (JRef 2) [JRef 30] platformWorld =
     (Return (JRef 25),
      allocate platformWorld
        [(25, Obj [] (Promise (Rejected (JRef 26)))),
         (26, Obj [(''code'', JStr ''USER_INPUT'')] Ordinary)])"
    by (simp add: samplePlatform_def)
  from makePurchaseAsync_forwards [where h = "samplePlatform ''sig''" and w = platformWorld, OF present ext]
    present ext show ?thesis
    by simp
qed



text \<open>
  C2. Where the platform exposes \<^verbatim>\<open>consumePurchaseAsync\<close>, the facade passes the token
  string as it is and returns the value of the external call itself: the same promise,
  so in every later world its state is the state of the external promise.
\<close>

theorem consumePurchaseAsync_returns_external_promise:
  assumes "iapMethod w ''consumePurchaseAsync'' = Some (iap, fid)"
    and "h fid iap [JStr token] w = (r, w')"
  shows "consumePurchaseAsync h w token = (r, w', [ExtCall fid iap [JStr token]]) \<and>
         (\<forall>later. promiseOf later (fst (consumePurchaseAsync h w token)) = promiseOf later r)"
  using assms by (simp add: consumePurchaseAsync_def callMethod_present)

theorem consumePurchaseAsync_returns_external_promise_witness:
  "iapMethod platformWorld ''consumePurchaseAsync'' = Some (JRef 2, 4) \<and>
   samplePlatform ''sig'' 4 (JRef 2) [JStr ''tok123''] platformWorld =
     (Return (JRef 27), allocate platformWorld [(27, Obj [] (Promise Pending))]) \<and>
   consumePurchaseAsync (samplePlatform ''sig'') platformWorld ''tok123'' =
     (Return (JRef 27), allocate platformWorld [(27, Obj [] (Promise Pending))],
      [ExtCall 4 (JRef 2) [JStr ''tok123'']]) \<and>
   promiseOf (allocate platformWorld [(27, Obj [] (Promise Pending))])
     (fst (consumePurchaseAsync (samplePlatform ''sig'') platformWorld ''tok123'')) =
     Some Pending"
proof -
  have present: "iapMethod platformWorld ''consumePurchaseAsync'' = Some (JRef 2, 4)"
    by (simp add: iapMethod_def platformWorld_def)
  have ext: "samplePlatform ''sig'' 4 (JRef 2) [JStr ''tok123''] platformWorld =
     (Return (JRef 27), allocate platformWorld [(27, Obj [] (Promise Pending))])"
    by (simp add: samplePlatform_def)
  have pending: "promiseOf (allocate platformWorld [(27, Obj [] (Promise Pending))])
     (Return (JRef 27)) = Some Pending"
    by (simp add: allocate_def platformWorld_def)
  from consumePurchaseAsync_returns_external_promise
         [where h = "samplePlatform ''sig''" and w = platformWorld, OF present ext]
    present ext pending
  show ?thesis by simp
qed

text \<open>
  C3. For each of the five functions, where the platform exposes the method, the
  facade's completion is the external call's after exactly one call: at any later
  moment the rejection it carries and every property of the reason by which it is
  classified are those of the external call.
\<close>

theorem rejection_surfaces_unchanged:
  assumes "iapMethod w (externalName c) = Some (iap, fid)"
    and "h fid iap (externalArgs c) w = (r, w')"
  shows "invoke h w c = (r, w', [ExtCall fid iap (externalArgs c)]) \<and>
         (\<forall>later k. rejectionOf later (fst (invoke h w c)) = rejectionOf later r \<and>
            classification k later (fst (invoke h w c)) = classification k later r)"
  using assms by (simp add: invoke_present)

theorem rejection_surfaces_unchanged_witness:
  "iapMethod platformWorld (externalName (MakePurchaseAsync (JRef 30))) = Some (JRef 2, 3) \<and>
   samplePlatform ''sig'' 3 (JRef 2) (externalArgs (MakePurchaseAsync (JRef 30))) platformWorld =
     (Return (JRef 25), cancelledWorld) \<and>
   invoke (samplePlatform ''sig'') platformWorld (MakePurchaseAsync (JRef 30)) =
     (Return (JRef 25), cancelledWorld, [ExtCall 3 (JRef 2) [JRef 30]]) \<and>
   rejectionOf cancelledWorld
     (fst (invoke (samplePlatform ''sig'') platformWorld (MakePurchaseAsync (JRef 30)))) =
     Some (JRef 26) \<and>
   classification ''code'' cancelledWorld
     (fst (invoke (samplePlatform ''sig'') platformWorld (MakePurchaseAsync (JRef 30)))) =
     Some (JStr ''USER_INPUT'')"
proof -
  have present:
    "iapMethod platformWorld (externalName (MakePurchaseAsync (JRef 30))) = Some (JRef 2, 3)"
    by (simp add: iapMethod_def platformWorld_def)
  have ext:
    "samplePlatform ''sig'' 3 (JRef 2) (externalArgs (MakePurchaseAsync (JRef 30))) platformWorld =
     (Return (JRef 25), cancelledWorld)"
    by (simp add: samplePlatform_def cancelledWorld_def)
  have rej: "rejectionOf cancelledWorld (Return (JRef 25)) = Some (JRef 26)"
    by (simp add: cancelledWorld_def allocate_def platformWorld_def)
  have cls: "classification ''code'' cancelledWorld (Return (JRef 25)) = Some (JStr ''USER_INPUT'')"
    by (simp add: cancelledWorld_def allocate_def platformWorld_def)
  from rejection_surfaces_unchanged
         [where h = "samplePlatform ''sig''" and w = platformWorld, OF present ext]
    present ext rej cls
  show ?thesis by simp
qed

text \<open>
  C4, the part that holds. Where the platform exposes \<^verbatim>\<open>isEnabled\<close> and that method reports a
  boolean, the facade returns this boolean at once, after one call of the method, in
  the world the method left.
\<close>

theorem isEnabled_reports_external:
  assumes "iapMethod w ''isEnabled'' = Some (iap, fid)"
    and "h fid iap [] w = (Return (JBool b), w')"
  shows "isEnabled h w = (Return (JBool b), w', [ExtCall fid iap []])"
  using assms by (simp add: isEnabled_def callMethod_present)

theorem isEnabled_reports_external_witness:
  "iapMethod platformWorld ''isEnabled'' = Some (JRef 2, 0) \<and>
   samplePlatform ''sig'' 0 (JRef 2) [] platformWorld = (Return (JBool True), platformWorld) \<and>
   isEnabled (samplePlatform ''sig'') platformWorld =
     (Return (JBool True), platformWorld, [ExtCall 0 (JRef 2) []])"
proof -
  have present: "iapMethod platformWorld ''isEnabled'' = Some (JRef 2, 0)"
    by (simp add: iapMethod_def platformWorld_def)
  have ext: "samplePlatform ''sig'' 0 (JRef 2) [] platformWorld =
     (Return (JBool True), platformWorld)"
    by (simp add: samplePlatform_def)
  from isEnabled_reports_external
         [where h = "samplePlatform ''sig''" and w = platformWorld, OF present ext]
    present ext
  show ?thesis by simp
qed

text \<open>
  C4, the part that fails: \<^verbatim>\<open>isEnabled\<close> does have a failure path. In a session whose \<^verbatim>\<open>window\<close> has no \<^verbatim>\<open>Wortal\<close>, the function
  returns no boolean, it throws a TypeError.
\<close>

theorem isEnabled_always_boolean_counterexample:
  "isEnabled (samplePlatform ''sig'') bareWorld = (Throw TypeError, bareWorld, [])"
  by (simp add: isEnabled_def callMethod_def bareWorld_def)

text \<open>
  C5. Where the platform exposes \<^verbatim>\<open>getCatalogAsync\<close>, the facade returns the promise
  of the external call: it is fulfilled with the platform's list (the empty list
  included) or rejected exactly when, and as, the external promise is.
\<close>

theorem getCatalogAsync_passes_catalog:
  assumes "iapMethod w ''getCatalogAsync'' = Some (iap, fid)"
    and "h fid iap [] w = (r, w')"
  shows "getCatalogAsync h w = (r, w', [ExtCall fid iap []]) \<and>
         (\<forall>later. promiseOf later (fst (getCatalogAsync h w)) = promiseOf later r)"
  using assms by (simp add: getCatalogAsync_def callMethod_present)

theorem getCatalogAsync_passes_catalog_witness:
  "iapMethod platformWorld ''getCatalogAsync'' = Some (JRef 2, 1) \<and>
   samplePlatform ''sig'' 1 (JRef 2) [] platformWorld = (Return (JRef 20), emptyCatalogWorld) \<and>
   getCatalogAsync (samplePlatform ''sig'') platformWorld =
     (Return (JRef 20), emptyCatalogWorld, [ExtCall 1 (JRef 2) []]) \<and>
   promiseOf emptyCatalogWorld (fst (getCatalogAsync (samplePlatform ''sig'') platformWorld)) =
     Some (Fulfilled (JRef 21)) \<and>
   map_of (heap emptyCatalogWorld) 21 = Some (Obj [] (Array []))"
proof -
  have present: "iapMethod platformWorld ''getCatalogAsync'' = Some (JRef 2, 1)"
    by (simp add: iapMethod_def platformWorld_def)
  have ext: "samplePlatform ''sig'' 1 (JRef 2) [] platformWorld =
     (Return (JRef 20), emptyCatalogWorld)"
    by (simp add: samplePlatform_def emptyCatalogWorld_def)
  have fulfilled: "promiseOf emptyCatalogWorld (Return (JRef 20)) = Some (Fulfilled (JRef 21))"
    by (simp add: emptyCatalogWorld_def allocate_def platformWorld_def)
  have empty: "map_of (heap emptyCatalogWorld) 21 = Some (Obj [] (Array []))"
    by (simp add: emptyCatalogWorld_def allocate_def platformWorld_def)
  from getCatalogAsync_passes_catalog
         [where h = "samplePlatform ''sig''" and w = platformWorld, OF present ext]
    present ext fulfilled empty
  show ?thesis by simp
qed

text \<open>
  C6. Where the platform exposes \<^verbatim>\<open>getPurchasesAsync\<close>, the facade returns the promise
  of the external call after that one call and nothing else: the array of purchases
  reaches the caller as the platform reported it, no purchase and no signature having
  been checked, and the promise fails exactly when, and as, the external promise does.
\<close>

theorem getPurchasesAsync_passes_purchases:
  assumes "iapMethod w ''getPurchasesAsync'' = Some (iap, fid)"
    and "h fid iap [] w = (r, w')"
  shows "getPurchasesAsync h w = (r, w', [ExtCall fid iap []]) \<and>
         (\<forall>later. promiseOf later (fst (getPurchasesAsync h w)) = promiseOf later r)"
  using assms by (simp add: getPurchasesAsync_def callMethod_present)

theorem getPurchasesAsync_passes_purchases_witness:
  "iapMethod platformWorld ''getPurchasesAsync'' = Some (JRef 2, 2) \<and>
   samplePlatform ''not.a-signature'' 2 (JRef 2) [] platformWorld =
     (Return (JRef 22), purchasesWorld ''not.a-signature'') \<and>
   getPurchasesAsync (samplePlatform ''not.a-signature'') platformWorld =
     (Return (JRef 22), purchasesWorld ''not.a-signature'', [ExtCall 2 (JRef 2) []]) \<and>
   promiseOf (purchasesWorld ''not.a-signature'')
     (fst (getPurchasesAsync (samplePlatform ''not.a-signature'') platformWorld)) =
     Some (Fulfilled (JRef 23)) \<and>
   map_option slot (map_of (heap (purchasesWorld ''not.a-signature'')) 23) =
     Some (Array [JRef 24]) \<and>
   getProp (purchasesWorld ''not.a-signature'') (JRef 24) ''signedRequest'' =
     Inr (JStr ''not.a-signature'')"
proof -
  have present: "iapMethod platformWorld ''getPurchasesAsync'' = Some (JRef 2, 2)"
    by (simp add: iapMethod_def platformWorld_def)
  have ext: "samplePlatform ''not.a-signature'' 2 (JRef 2) [] platformWorld =
     (Return (JRef 22), purchasesWorld ''not.a-signature'')"
    by (simp add: samplePlatform_def purchasesWorld_def)
  have fulfilled: "promiseOf (purchasesWorld ''not.a-signature'') (Return (JRef 22)) =
     Some (Fulfilled (JRef 23))"
    by (simp add: purchasesWorld_def allocate_def platformWorld_def)
  have arr: "map_option slot (map_of (heap (purchasesWorld ''not.a-signature'')) 23) =
     Some (Array [JRef 24])"
    by (simp add: purchasesWorld_def allocate_def platformWorld_def)
  have sig: "getProp (purchasesWorld ''not.a-signature'') (JRef 24) ''signedRequest'' =
     Inr (JStr ''not.a-signature'')"
    by (simp add: purchasesWorld_def allocate_def platformWorld_def purchaseObj_def
        optionalProp_def)
  from getPurchasesAsync_passes_purchases
         [where h = "samplePlatform ''not.a-signature''" and w = platformWorld, OF present ext]
    present ext fulfilled arr sig
  show ?thesis by simp
qed

text \<open>
  C7. In a sequence of invocations during which the platform stays loaded, every
  invocation makes exactly one call, to the platform method of its name with the
  caller's arguments, and the world at the end is the world the platform's functions
  alone produce: the facade keeps and changes no state of its own.
\<close>

theorem facade_owns_no_state:
  assumes "platformCalls h w cs = Some calls"
  shows "snd (snd (session h w cs)) = calls \<and> length calls = length cs \<and>
         fst (snd (session h w cs)) = replay h w calls"
  using assms
proof (induction cs arbitrary: w calls)
  case Nil
  then show ?case by simp
next
  case (Cons c cs)
  from Cons.prems obtain iap fid rest where
    present: "iapMethod w (externalName c) = Some (iap, fid)"
    and rest: "platformCalls h (snd (h fid iap (externalArgs c) w)) cs = Some rest"
    and calls: "calls = ExtCall fid iap (externalArgs c) # rest"
    by (auto split: option.splits)
  let ?w1 = "snd (h fid iap (externalArgs c) w)"
  have step: "invoke h w c =
    (fst (h fid iap (externalArgs c) w), ?w1, [ExtCall fid iap (externalArgs c)])"
    using present by (rule invoke_present)
  obtain rs w2 calls2 where tail: "session h ?w1 cs = (rs, w2, calls2)"
    by (cases "session h ?w1 cs") auto
  from Cons.IH [OF rest] tail have ih:
    "calls2 = rest" "length rest = length cs" "w2 = replay h ?w1 rest"
    by simp_all
  from step tail ih calls show ?case by simp
qed

theorem facade_owns_no_state_witness:
  "platformCalls (samplePlatform ''sig'') platformWorld
     [IsEnabled, GetCatalogAsync, ConsumePurchaseAsync ''tok123''] =
     Some [ExtCall 0 (JRef 2) [], ExtCall 1 (JRef 2) [], ExtCall 4 (JRef 2) [JStr ''tok123'']] \<and>
   snd (snd (session (samplePlatform ''sig'') platformWorld
     [IsEnabled, GetCatalogAsync, ConsumePurchaseAsync ''tok123''])) =
     [ExtCall 0 (JRef 2) [], ExtCall 1 (JRef 2) [], ExtCall 4 (JRef 2) [JStr ''tok123'']] \<and>
   fst (snd (session (samplePlatform ''sig'') platformWorld
     [IsEnabled, GetCatalogAsync, ConsumePurchaseAsync ''tok123''])) =
     replay (samplePlatform ''sig'') platformWorld
       [ExtCall 0 (JRef 2) [], ExtCall 1 (JRef 2) [], ExtCall 4 (JRef 2) [JStr ''tok123'']]"
proof -
  have loaded: "platformCalls (samplePlatform ''sig'') platformWorld
     [IsEnabled, GetCatalogAsync, ConsumePurchaseAsync ''tok123''] =
     Some [ExtCall 0 (JRef 2) [], ExtCall 1 (JRef 2) [], ExtCall 4 (JRef 2) [JStr ''tok123'']]"
    by (simp add: iapMethod_def platformWorld_def samplePlatform_def allocate_def)
  from facade_owns_no_state [OF loaded] loaded show ?thesis
    by simp
qed

text \<open>
  C8. Two runs whose worlds and whose platform responses differ in signature strings
  only give results that differ in signature strings only: the same completion, the
  same calls, worlds equal up to those strings. The world after a run is the caller's
  world or the world the platform left, each string in it as it was.
\<close>

theorem signatures_never_inspected:
  assumes "eraseSignatures w1 = eraseSignatures w2"
    and "\<forall>fid this args. eraseOutcome (h1 fid this args w1) = eraseOutcome (h2 fid this args w2)"
  shows "eraseResult (invoke h1 w1 c) = eraseResult (invoke h2 w2 c) \<and>
         (fst (snd (invoke h1 w1 c)) = w1 \<or>
          (\<exists>iap fid. fst (snd (invoke h1 w1 c)) = snd (h1 fid iap (externalArgs c) w1)))"
proof
  have same: "iapMethod w1 (externalName c) = iapMethod w2 (externalName c)"
    and win: "window w1 = window w2"
    using assms(1) by (rule lookup_depends_on_erasure)+
  show "eraseResult (invoke h1 w1 c) = eraseResult (invoke h2 w2 c)"
  proof (cases "iapMethod w1 (externalName c)")
    case None
    show ?thesis
    proof (cases "window w1")
      case None
      with win assms(1) show ?thesis by (simp add: invoke_undeclared)
    next
      case (Some v)
      with win have win2: "window w2 = Some v" by simp
      from \<open>iapMethod w1 (externalName c) = None\<close> same
      have none2: "iapMethod w2 (externalName c) = None" by simp
      have "invoke h1 w1 c = (Throw TypeError, w1, [])"
        using \<open>iapMethod w1 (externalName c) = None\<close> Some by (rule invoke_absent)
      moreover have "invoke h2 w2 c = (Throw TypeError, w2, [])"
        using none2 win2 by (rule invoke_absent)
      ultimately show ?thesis using assms(1) by simp
    qed
  next
    case (Some p)
    then obtain iap fid where p1: "iapMethod w1 (externalName c) = Some (iap, fid)"
      by (cases p) simp
    with same have p2: "iapMethod w2 (externalName c) = Some (iap, fid)" by simp
    from assms(2) have
      "eraseOutcome (h1 fid iap (externalArgs c) w1) = eraseOutcome (h2 fid iap (externalArgs c) w2)"
      by blast
    then have "fst (h1 fid iap (externalArgs c) w1) = fst (h2 fid iap (externalArgs c) w2) \<and>
      eraseSignatures (snd (h1 fid iap (externalArgs c) w1)) =
      eraseSignatures (snd (h2 fid iap (externalArgs c) w2))"
      by (cases "h1 fid iap (externalArgs c) w1"; cases "h2 fid iap (externalArgs c) w2") simp
    with p1 p2 show ?thesis by (simp add: invoke_present)
  qed
  show "fst (snd (invoke h1 w1 c)) = w1 \<or>
        (\<exists>iap fid. fst (snd (invoke h1 w1 c)) = snd (h1 fid iap (externalArgs c) w1))"
    by (rule invoke_writes_nothing)
qed

theorem signatures_never_inspected_witness:
  "eraseSignatures platformWorld = eraseSignatures platformWorld \<and>
   (\<forall>fid this args.
      eraseOutcome (samplePlatform ''sigA.payload'' fid this args platformWorld) =
      eraseOutcome (samplePlatform ''sigB.payload'' fid this args platformWorld)) \<and>
   eraseResult (invoke (samplePlatform ''sigA.payload'') platformWorld GetPurchasesAsync) =
   eraseResult (invoke (samplePlatform ''sigB.payload'') platformWorld GetPurchasesAsync) \<and>
   fst (snd (invoke (samplePlatform ''sigA.payload'') platformWorld GetPurchasesAsync)) =
     purchasesWorld ''sigA.payload'' \<and>
   fst (snd (invoke (samplePlatform ''sigB.payload'') platformWorld GetPurchasesAsync)) =
     purchasesWorld ''sigB.payload'' \<and>
   purchasesWorld ''sigA.payload'' \<noteq> purchasesWorld ''sigB.payload''"
proof -
  have same: "eraseSignatures platformWorld = eraseSignatures platformWorld" ..
  have alike: "\<forall>fid this args.
      eraseOutcome (samplePlatform ''sigA.payload'' fid this args platformWorld) =
      eraseOutcome (samplePlatform ''sigB.payload'' fid this args platformWorld)"
    by (simp add: samplePlatform_def eraseSignatures_def allocate_def purchaseObj_def
        optionalProp_def isSignatureKey_def)
  have present: "iapMethod platformWorld (externalName GetPurchasesAsync) = Some (JRef 2, 2)"
    by (simp add: iapMethod_def platformWorld_def)
  have a: "fst (snd (invoke (samplePlatform ''sigA.payload'') platformWorld GetPurchasesAsync)) =
     purchasesWorld ''sigA.payload''"
    using invoke_present [OF present, where h = "samplePlatform ''sigA.payload''"]
    by (simp add: samplePlatform_def purchasesWorld_def)
  have b: "fst (snd (invoke (samplePlatform ''sigB.payload'') platformWorld GetPurchasesAsync)) =
     purchasesWorld ''sigB.payload''"
    using invoke_present [OF present, where h = "samplePlatform ''sigB.payload''"]
    by (simp add: samplePlatform_def purchasesWorld_def)
  have differ: "purchasesWorld ''sigA.payload'' \<noteq> purchasesWorld ''sigB.payload''"
    by (simp add: purchasesWorld_def allocate_def platformWorld_def purchaseObj_def
        optionalProp_def)
  from signatures_never_inspected
         [where ?h1.0 = "samplePlatform ''sigA.payload''" and ?h2.0 = "samplePlatform ''sigB.payload''"
            and c = GetPurchasesAsync, OF same alike]
    same alike a b differ
  show ?thesis by simp
qed

text \<open>
  C10. Where \<^verbatim>\<open>window\<close> is there and \<^verbatim>\<open>window.Wortal\<close>, its \<^verbatim>\<open>iap\<close> member or the
  method is missing or not callable, each of the five functions throws a TypeError
  at once: it returns nothing (no rejected promise), calls nothing and leaves the
  world as it was.
\<close>

theorem absent_platform_throws:
  assumes "window w = Some win" and "iapMethod w (externalName c) = None"
  shows "invoke h w c = (Throw TypeError, w, [])"
  using assms by (simp add: invoke_absent)

theorem absent_platform_throws_witness:
  "window bareWorld = Some (JRef 0) \<and>
   iapMethod bareWorld (externalName GetCatalogAsync) = None \<and>
   invoke (samplePlatform ''sig'') bareWorld GetCatalogAsync = (Throw TypeError, bareWorld, []) \<and>
   window noIapWorld = Some (JRef 0) \<and>
   iapMethod noIapWorld (externalName IsEnabled) = None \<and>
   invoke (samplePlatform ''sig'') noIapWorld IsEnabled = (Throw TypeError, noIapWorld, []) \<and>
   window noMethodWorld = Some (JRef 0) \<and>
   iapMethod noMethodWorld (externalName (ConsumePurchaseAsync ''tok123'')) = None \<and>
   invoke (samplePlatform ''sig'') noMethodWorld (ConsumePurchaseAsync ''tok123'') =
     (Throw TypeError, noMethodWorld, [])"
proof -
  have w1: "window bareWorld = Some (JRef 0)" by (simp add: bareWorld_def)
  have a1: "iapMethod bareWorld (externalName GetCatalogAsync) = None"
    by (simp add: iapMethod_def bareWorld_def)
  have w2: "window noIapWorld = Some (JRef 0)" by (simp add: noIapWorld_def)
  have a2: "iapMethod noIapWorld (externalName IsEnabled) = None"
    by (simp add: iapMethod_def noIapWorld_def)
  have w3: "window noMethodWorld = Some (JRef 0)" by (simp add: noMethodWorld_def)
  have a3: "iapMethod noMethodWorld (externalName (ConsumePurchaseAsync ''tok123'')) = None"
    by (simp add: iapMethod_def noMethodWorld_def)
  note t = absent_platform_throws [where h = "samplePlatform ''sig''"]
  from t [OF w1 a1] t [OF w2 a2] t [OF w3 a3] w1 a1 w2 a2 w3 a3
  show ?thesis by simp
qed

end
